theory Spec2Isabelle
  imports
    Complex_Main
    "HOL-Library.Word"
    "HOL-Library.List_Lexorder"
    "HOL-Library.Multiset"
begin

section \<open>JavaScript values\<close>

text \<open>
  A JavaScript string is a sequence of UTF-16 code units, and \<^verbatim>\<open><\<close> on two strings
  compares them code unit by code unit, a proper prefix being smaller. That is the
  lexicographic order of the theory \<open>List_Lexorder\<close> on lists of 16-bit words.
  \<open>js\<close> writes an ASCII literal of the source as such a list.
\<close>

type_synonym jsstring = "16 word list"

definition js :: "string \<Rightarrow> jsstring" where
  "js s = map of_char s"

text \<open>
  The primitive values a field of a refinement can hold. The connector never computes
  with a number (it hands \<^verbatim>\<open>numericValue\<close> on and compares a string with \<^verbatim>\<open>-1\<close>), so a
  finite number is kept as the rational it denotes; \<^verbatim>\<open>NaN\<close> and the infinities are
  left out.
\<close>

datatype jsval = JUndefined | JNull | JBool bool | JNum rat | JStr jsstring

text \<open>\<^verbatim>\<open>typeof v\<close>.\<close>

fun typeof :: "jsval \<Rightarrow> jsstring" where
  "typeof JUndefined = js ''undefined''"
| "typeof JNull = js ''object''"
| "typeof (JBool b) = js ''boolean''"
| "typeof (JNum n) = js ''number''"
| "typeof (JStr s) = js ''string''"

text \<open>
  \<^verbatim>\<open>a === b\<close>: no conversion, so values of different types are never equal, and on the
  values of \<^typ>\<open>jsval\<close> it is equality.
\<close>

definition strict_equals :: "jsval \<Rightarrow> jsval \<Rightarrow> bool" where
  "strict_equals a b = (a = b)"

text \<open>
  \<^verbatim>\<open>xs.indexOf(x)\<close>: the index of the first element strictly equal to \<open>x\<close>,
  and \<^verbatim>\<open>-1\<close> when there is none.
\<close>

fun indexOf :: "'a list \<Rightarrow> 'a \<Rightarrow> int" where
  "indexOf [] x = - 1"
| "indexOf (y # ys) x =
     (if y = x then 0
      else (let i = indexOf ys x in if i = - 1 then - 1 else i + 1))"

text \<open>The truth value of a number in a condition: every number but zero is true.\<close>

definition truthy :: "int \<Rightarrow> bool" where
  "truthy n = (n \<noteq> 0)"

text \<open>Reading a property that may be missing: a missing property reads \<^verbatim>\<open>undefined\<close>.\<close>

definition readProp :: "jsval option \<Rightarrow> jsval" where
  "readProp f = (case f of None \<Rightarrow> JUndefined | Some v \<Rightarrow> v)"

text \<open>
  \<^verbatim>\<open>xs.sort(cmp)\<close>. The language fixes the outcome of a sort with a consistent
  comparator up to the order of elements that compare equal, and since ECMAScript 2019
  requires the sort to be stable, which fixes that order too: it is the stable insertion
  sort below. \<open>cmp a b\<close> negative or zero keeps \<open>a\<close> before \<open>b\<close>.
\<close>

fun insert_sorted :: "('a \<Rightarrow> 'a \<Rightarrow> int) \<Rightarrow> 'a \<Rightarrow> 'a list \<Rightarrow> 'a list" where
  "insert_sorted cmp x [] = [x]"
| "insert_sorted cmp x (y # ys) =
     (if cmp x y \<le> 0 then x # y # ys else y # insert_sorted cmp x ys)"

fun array_sort :: "('a \<Rightarrow> 'a \<Rightarrow> int) \<Rightarrow> 'a list \<Rightarrow> 'a list" where
  "array_sort cmp [] = []"
| "array_sort cmp (x # xs) = insert_sorted cmp x (array_sort cmp xs)"

section \<open>Refinement records\<close>

text \<open>
  One active filter as the connector sees it. \<open>type\<close>, \<open>attributeName\<close> and \<open>name\<close>
  are always there; the other properties may be missing (\<open>None\<close>), which is what
  \<^verbatim>\<open>hasOwnProperty\<close> tests.
\<close>

record refinement =
  type :: jsstring
  attributeName :: jsstring
  name :: jsstring
  operator :: "jsval option"
  numericValue :: "jsval option"
  count :: "jsval option"
  computedLabel :: "jsstring option"

section \<open>Ordering of refinements\<close>

definition getRestrictedIndexForSort :: "jsstring list \<Rightarrow> jsstring list \<Rightarrow> jsstring \<Rightarrow> int" where
  "getRestrictedIndexForSort attributeNames otherAttributeNames attrName =
     (let idx = indexOf attributeNames attrName
      in if idx \<noteq> - 1 then idx
         else int (length attributeNames) + indexOf otherAttributeNames attrName)"

definition compareRefinements ::
  "jsstring list \<Rightarrow> jsstring list \<Rightarrow> refinement \<Rightarrow> refinement \<Rightarrow> int" where
  "compareRefinements attributeNames otherAttributeNames a b =
     (let idxa = getRestrictedIndexForSort attributeNames otherAttributeNames (attributeName a);
          idxb = getRestrictedIndexForSort attributeNames otherAttributeNames (attributeName b)
      in if idxa = idxb then
           (if name a = name b then 0
            else if name a < name b then - 1 else 1)
         else if idxa < idxb then - 1 else 1)"

section \<open>Labels\<close>

text \<open>
  \<^verbatim>\<open>computeLabel\<close> writes \<open>computedLabel\<close> and returns the record. The two symbols
  are the code units U+2265 and U+2264, the separator is a space. The test
  \<^verbatim>\<open>value.hasOwnProperty('operator')\<close> is \<open>operator v \<noteq> None\<close>; once \<^verbatim>\<open>typeof\<close> has
  answered \<^verbatim>\<open>'string'\<close> the operator is a \<open>JStr\<close>, so the last branch of the case
  is never taken.
\<close>

definition computeLabel :: "refinement \<Rightarrow> refinement" where
  "computeLabel v =
     (let v = v\<lparr>computedLabel := Some (name v)\<rparr>
      in if operator v \<noteq> None \<and> typeof (readProp (operator v)) = js ''string'' then
           (case readProp (operator v) of
              JStr op \<Rightarrow>
                (let displayedOperator = op;
                     displayedOperator = (if op = js ''>='' then [0x2265] else displayedOperator);
                     displayedOperator = (if op = js ''<='' then [0x2264] else displayedOperator)
                 in v\<lparr>computedLabel := Some (displayedOperator @ js '' '' @ name v)\<rparr>)
            | _ \<Rightarrow> v)
         else v)"

section \<open>Extraction\<close>

text \<open>
  The reducer of \<^verbatim>\<open>getFilteredRefinements\<close> that collects the attribute names outside
  the declared list. Its second test is written
  \<^verbatim>\<open>res.indexOf(refinement.attributeName === -1)\<close>: the comparison of the name with
  \<^verbatim>\<open>-1\<close> is made first, and the boolean it gives is what is searched for in
  \<open>res\<close>; the index found is then read as a truth value.
\<close>

definition otherAttributeNames :: "jsstring list \<Rightarrow> refinement list \<Rightarrow> jsstring list" where
  "otherAttributeNames attributeNames refinements =
     fold (\<lambda>refinement res.
             if indexOf attributeNames (attributeName refinement) = - 1 \<and>
                truthy (indexOf (map JStr res)
                          (JBool (strict_equals (JStr (attributeName refinement)) (JNum (- 1)))))
             then res @ [attributeName refinement]
             else res)
          refinements []"

text \<open>
  \<^verbatim>\<open>getRefinements\<close> lives in \<^verbatim>\<open>lib/utils.js\<close>; the connector only calls it, so it is
  a parameter here.
\<close>

definition getFilteredRefinements ::
  "('r \<Rightarrow> 's \<Rightarrow> refinement list) \<Rightarrow> 'r \<Rightarrow> 's \<Rightarrow> jsstring list \<Rightarrow> bool \<Rightarrow> refinement list" where
  "getFilteredRefinements getRefinements results state attributeNames onlyListedAttributes =
     (let refinements = getRefinements results state;
          others = otherAttributeNames attributeNames refinements;
          refinements = array_sort (compareRefinements attributeNames others) refinements;
          refinements =
            (if onlyListedAttributes \<and> attributeNames \<noteq> []
             then filter (\<lambda>refinement. indexOf attributeNames (attributeName refinement) \<noteq> - 1)
                    refinements
             else refinements)
      in map computeLabel refinements)"

section \<open>Clearing one refinement\<close>

text \<open>
  The methods of the search state the connector calls, one per kind of refinement. They
  belong to the search client; each takes the state and returns the new one.
\<close>

record 's state_methods =
  removeFacetRefinement :: "'s \<Rightarrow> jsstring \<Rightarrow> jsstring \<Rightarrow> 's"
  removeDisjunctiveFacetRefinement :: "'s \<Rightarrow> jsstring \<Rightarrow> jsstring \<Rightarrow> 's"
  clearRefinements :: "'s \<Rightarrow> jsstring \<Rightarrow> 's"
  removeExcludeRefinement :: "'s \<Rightarrow> jsstring \<Rightarrow> jsstring \<Rightarrow> 's"
  removeNumericRefinement :: "'s \<Rightarrow> jsstring \<Rightarrow> jsval \<Rightarrow> jsval \<Rightarrow> 's"
  removeTagRefinement :: "'s \<Rightarrow> jsstring \<Rightarrow> 's"

datatype error = Error jsstring

definition handledTypes :: "jsstring list" where
  "handledTypes =
     [js ''facet'', js ''disjunctive'', js ''hierarchical'', js ''exclude'', js ''numeric'',
      js ''tag'']"

definition clearRefinementFromState ::
  "'s state_methods \<Rightarrow> 's \<Rightarrow> refinement \<Rightarrow> error + 's" where
  "clearRefinementFromState m state refinement =
     (if type refinement = js ''facet'' then
        Inr (removeFacetRefinement m state (attributeName refinement) (name refinement))
      else if type refinement = js ''disjunctive'' then
        Inr (removeDisjunctiveFacetRefinement m state (attributeName refinement) (name refinement))
      else if type refinement = js ''hierarchical'' then
        Inr (clearRefinements m state (attributeName refinement))
      else if type refinement = js ''exclude'' then
        Inr (removeExcludeRefinement m state (attributeName refinement) (name refinement))
      else if type refinement = js ''numeric'' then
        Inr (removeNumericRefinement m state (attributeName refinement)
               (readProp (operator refinement)) (readProp (numericValue refinement)))
      else if type refinement = js ''tag'' then
        Inr (removeTagRefinement m state (name refinement))
      else
        Inl (Error (js ''clearRefinement: type '' @ type refinement @ js '' is not handled'')))"

section \<open>What the specification says, as definitions\<close>

text \<open>
  The label as a function of \<open>name\<close> and \<open>operator\<close> alone: the two comparison
  operators get their symbol, any other operator string is kept, and without an operator
  string the label is the name.
\<close>

definition spec_label :: "jsstring \<Rightarrow> jsval option \<Rightarrow> jsstring" where
  "spec_label n opr =
     (case opr of
        Some (JStr op) \<Rightarrow>
          (if op = js ''>='' then [0x2265] else if op = js ''<='' then [0x2264] else op)
            @ js '' '' @ n
      | _ \<Rightarrow> n)"

text \<open>
  The Ordering Key, as a relation between a record \<open>a\<close> and a record \<open>b\<close> that comes
  later in the output: no unlisted attribute before a listed one, listed attributes in
  declared order, unlisted attributes in the order in which they are first seen in the raw
  refinements, and names in ascending order within one attribute.
\<close>

definition ordering_key_ok ::
  "jsstring list \<Rightarrow> refinement list \<Rightarrow> refinement \<Rightarrow> refinement \<Rightarrow> bool" where
  "ordering_key_ok attributeNames raw a b =
     ((attributeName b \<in> set attributeNames \<longrightarrow> attributeName a \<in> set attributeNames) \<and>
      (attributeName a \<in> set attributeNames \<and> attributeName b \<in> set attributeNames \<longrightarrow>
         indexOf attributeNames (attributeName a) \<le> indexOf attributeNames (attributeName b)) \<and>
      (attributeName a \<notin> set attributeNames \<and> attributeName b \<notin> set attributeNames \<longrightarrow>
         indexOf (map attributeName raw) (attributeName a)
           \<le> indexOf (map attributeName raw) (attributeName b)) \<and>
      (attributeName a = attributeName b \<longrightarrow> name a \<le> name b))"

text \<open>
  The tail of attribute names as the specification wants it: each name outside the
  declared list once, where it is first seen. It is the reducer of the source with the
  membership test \<^verbatim>\<open>res.indexOf(refinement.attributeName) === -1\<close>.
\<close>

definition spec_otherNames :: "jsstring list \<Rightarrow> refinement list \<Rightarrow> jsstring list" where
  "spec_otherNames attributeNames refinements =
     fold (\<lambda>refinement res.
             if indexOf attributeNames (attributeName refinement) = - 1 \<and>
                indexOf res (attributeName refinement) = - 1
             then res @ [attributeName refinement]
             else res)
          refinements []"

text \<open>\<^verbatim>\<open>getFilteredRefinements\<close> sorting with that tail instead of its own.\<close>

definition spec_getFilteredRefinements ::
  "('r \<Rightarrow> 's \<Rightarrow> refinement list) \<Rightarrow> 'r \<Rightarrow> 's \<Rightarrow> jsstring list \<Rightarrow> bool \<Rightarrow> refinement list" where
  "spec_getFilteredRefinements getRefinements results state attributeNames onlyListedAttributes =
     (let refinements = getRefinements results state;
          others = spec_otherNames attributeNames refinements;
          refinements = array_sort (compareRefinements attributeNames others) refinements;
          refinements =
            (if onlyListedAttributes \<and> attributeNames \<noteq> []
             then filter (\<lambda>refinement. indexOf attributeNames (attributeName refinement) \<noteq> - 1)
                    refinements
             else refinements)
      in map computeLabel refinements)"

text \<open>The first occurrences of a list, in order; used to reason about the two tails.\<close>

fun first_occurrences :: "'a list \<Rightarrow> 'a list" where
  "first_occurrences [] = []"
| "first_occurrences (x # xs) = x # filter (\<lambda>y. y \<noteq> x) (first_occurrences xs)"

section \<open>The search state, from the specification\<close>

text \<open>
  Modelled from the spec: the query state of the search client, which is not part of the
  connector. The specification makes it the collection of the active refinements of the
  six kinds: values refined, excluded or chosen per attribute, (operator, value) pairs per
  numeric attribute, and tags, which have no attribute.
\<close>

record query_state =
  facetsRefinements :: "(jsstring \<times> jsstring) list"
  disjunctiveFacetsRefinements :: "(jsstring \<times> jsstring) list"
  hierarchicalFacetsRefinements :: "(jsstring \<times> jsstring) list"
  facetsExcludes :: "(jsstring \<times> jsstring) list"
  numericRefinements :: "(jsstring \<times> jsstring \<times> rat) list"
  tagRefinements :: "jsstring list"

text \<open>
  Modelled from the spec: the raw record of one refined value, with the three properties
  every record has and a count that may come from the results.
\<close>

definition valueRefinement ::
  "jsstring \<Rightarrow> jsval option \<Rightarrow> jsstring \<Rightarrow> jsstring \<Rightarrow> refinement" where
  "valueRefinement ty cnt attr val =
     \<lparr>type = ty, attributeName = attr, name = val, operator = None, numericValue = None,
      count = cnt, computedLabel = None\<rparr>"

text \<open>
  Modelled from the spec: \<^verbatim>\<open>getRefinements(results, state)\<close> of \<^verbatim>\<open>lib/utils.js\<close>, which
  returns one entry for each active refinement of each kind, a numeric one with its
  \<open>operator\<close> and \<open>numericValue\<close>. What the specification leaves open is a parameter:
  \<open>countOf\<close> (the count read from the results, given type, attribute and value),
  \<open>showNumber\<close> (the name of a numeric value) and \<open>tagsAttribute\<close> (the attribute
  name that a tag record carries).
\<close>

definition spec_getRefinements ::
  "('r \<Rightarrow> jsstring \<Rightarrow> jsstring \<Rightarrow> jsstring \<Rightarrow> jsval option) \<Rightarrow> (rat \<Rightarrow> jsstring) \<Rightarrow> jsstring \<Rightarrow>
   'r \<Rightarrow> query_state \<Rightarrow> refinement list" where
  "spec_getRefinements countOf showNumber tagsAttribute results state =
     map (\<lambda>(a, v). valueRefinement (js ''facet'') (countOf results (js ''facet'') a v) a v)
       (facetsRefinements state) @
     map (\<lambda>(a, v). valueRefinement (js ''exclude'') (countOf results (js ''exclude'') a v) a v)
       (facetsExcludes state) @
     map (\<lambda>(a, v).
            valueRefinement (js ''disjunctive'') (countOf results (js ''disjunctive'') a v) a v)
       (disjunctiveFacetsRefinements state) @
     map (\<lambda>(a, v).
            valueRefinement (js ''hierarchical'') (countOf results (js ''hierarchical'') a v) a v)
       (hierarchicalFacetsRefinements state) @
     map (\<lambda>(a, op, v).
            (valueRefinement (js ''numeric'') None a (showNumber v))
              \<lparr>operator := Some (JStr op), numericValue := Some (JNum v)\<rparr>)
       (numericRefinements state) @
     map (\<lambda>t. valueRefinement (js ''tag'') None tagsAttribute t) (tagRefinements state)"

text \<open>
  Modelled from the spec: the mutator for a facet value, "remove exact facet value for
  attributeName". It returns a new state.
\<close>

definition spec_removeFacetRefinement :: "query_state \<Rightarrow> jsstring \<Rightarrow> jsstring \<Rightarrow> query_state" where
  "spec_removeFacetRefinement s attr val =
     s\<lparr>facetsRefinements := filter (\<lambda>e. e \<noteq> (attr, val)) (facetsRefinements s)\<rparr>"

text \<open>
  Modelled from the spec: the mutator for a disjunctive value, "remove value from
  disjunctive facet for attributeName".
\<close>

definition spec_removeDisjunctiveFacetRefinement ::
  "query_state \<Rightarrow> jsstring \<Rightarrow> jsstring \<Rightarrow> query_state" where
  "spec_removeDisjunctiveFacetRefinement s attr val =
     s\<lparr>disjunctiveFacetsRefinements :=
         filter (\<lambda>e. e \<noteq> (attr, val)) (disjunctiveFacetsRefinements s)\<rparr>"

text \<open>
  Modelled from the spec: the mutator used for a hierarchical refinement, "clear all
  refinements for attributeName". Tags have no attribute and stay.
\<close>

definition spec_clearRefinements :: "query_state \<Rightarrow> jsstring \<Rightarrow> query_state" where
  "spec_clearRefinements s attr =
     s\<lparr>facetsRefinements := filter (\<lambda>e. fst e \<noteq> attr) (facetsRefinements s),
       disjunctiveFacetsRefinements :=
         filter (\<lambda>e. fst e \<noteq> attr) (disjunctiveFacetsRefinements s),
       hierarchicalFacetsRefinements :=
         filter (\<lambda>e. fst e \<noteq> attr) (hierarchicalFacetsRefinements s),
       facetsExcludes := filter (\<lambda>e. fst e \<noteq> attr) (facetsExcludes s),
       numericRefinements := filter (\<lambda>e. fst e \<noteq> attr) (numericRefinements s)\<rparr>"

text \<open>
  Modelled from the spec: the mutator for an excluded value, "remove excluded value for
  attributeName".
\<close>

definition spec_removeExcludeRefinement :: "query_state \<Rightarrow> jsstring \<Rightarrow> jsstring \<Rightarrow> query_state" where
  "spec_removeExcludeRefinement s attr val =
     s\<lparr>facetsExcludes := filter (\<lambda>e. e \<noteq> (attr, val)) (facetsExcludes s)\<rparr>"

text \<open>
  Modelled from the spec: the mutator for a numeric refinement, "remove the specific
  (operator, numericValue) pair for attributeName". The connector passes what it reads from
  the record, so the two arguments are values.
\<close>

definition spec_removeNumericRefinement ::
  "query_state \<Rightarrow> jsstring \<Rightarrow> jsval \<Rightarrow> jsval \<Rightarrow> query_state" where
  "spec_removeNumericRefinement s attr opv numv =
     s\<lparr>numericRefinements :=
         filter (\<lambda>(a, op, v). \<not> (a = attr \<and> strict_equals (JStr op) opv \<and>
                                  strict_equals (JNum v) numv))
           (numericRefinements s)\<rparr>"

text \<open>Modelled from the spec: the mutator for a tag, "remove the tag by name".\<close>

definition spec_removeTagRefinement :: "query_state \<Rightarrow> jsstring \<Rightarrow> query_state" where
  "spec_removeTagRefinement s val =
     s\<lparr>tagRefinements := filter (\<lambda>t. t \<noteq> val) (tagRefinements s)\<rparr>"

text \<open>Modelled from the spec: the six mutators as the methods of the state.\<close>

definition spec_methods :: "query_state state_methods" where
  "spec_methods =
     \<lparr>removeFacetRefinement = spec_removeFacetRefinement,
      removeDisjunctiveFacetRefinement = spec_removeDisjunctiveFacetRefinement,
      clearRefinements = spec_clearRefinements,
      removeExcludeRefinement = spec_removeExcludeRefinement,
      removeNumericRefinement = spec_removeNumericRefinement,
      removeTagRefinement = spec_removeTagRefinement\<rparr>"

section \<open>Example records\<close>

text \<open>The refinements that the examples below run on.\<close>

definition facet_color_red :: refinement where
  "facet_color_red =
     \<lparr>type = js ''facet'', attributeName = js ''color'', name = js ''red'', operator = None,
      numericValue = None, count = None, computedLabel = None\<rparr>"

definition facet_color_blue :: refinement where
  "facet_color_blue =
     \<lparr>type = js ''facet'', attributeName = js ''color'', name = js ''blue'', operator = None,
      numericValue = None, count = None, computedLabel = None\<rparr>"

definition tag_sale :: refinement where
  "tag_sale =
     \<lparr>type = js ''tag'', attributeName = js ''_tags'', name = js ''sale'', operator = None,
      numericValue = None, count = None, computedLabel = None\<rparr>"

definition numeric_price :: "jsstring \<Rightarrow> jsstring \<Rightarrow> rat \<Rightarrow> refinement" where
  "numeric_price op shown v =
     \<lparr>type = js ''numeric'', attributeName = js ''price'', name = shown,
      operator = Some (JStr op), numericValue = Some (JNum v), count = None,
      computedLabel = None\<rparr>"

text \<open>A state with two values of one facet, a numeric refinement and a tag.\<close>

definition example_state :: query_state where
  "example_state =
     \<lparr>facetsRefinements = [(js ''color'', js ''red''), (js ''color'', js ''blue'')],
      disjunctiveFacetsRefinements = [],
      hierarchicalFacetsRefinements = [],
      facetsExcludes = [],
      numericRefinements = [(js ''price'', js ''>='', 10)],
      tagRefinements = [js ''sale'']\<rparr>"

text \<open>
  The three refinements of the specification's examples, and a list that mixes a declared
  attribute with two undeclared ones.
\<close>

definition example_refinements :: "refinement list" where
  "example_refinements = [facet_color_red, facet_color_blue, tag_sale]"

definition example_mixed :: "refinement list" where
  "example_mixed =
     [tag_sale, facet_color_red, numeric_price (js ''>='') (js ''10'') 10, facet_color_blue]"

section \<open>Facts about the JavaScript operations\<close>

lemma indexOf_ge: "- 1 \<le> indexOf xs x"
  by (induction xs) (simp_all add: Let_def)

lemma indexOf_absent: "indexOf xs x = - 1 \<longleftrightarrow> x \<notin> set xs"
proof (induction xs)
  case Nil
  show ?case by simp
next
  case (Cons y ys)
  have "- 1 \<le> indexOf ys x" by (rule indexOf_ge)
  with Cons show ?case by (auto simp: Let_def)
qed

lemma indexOf_member: "x \<in> set xs \<Longrightarrow> 0 \<le> indexOf xs x \<and> indexOf xs x < int (length xs)"
proof (induction xs)
  case Nil
  then show ?case by simp
next
  case (Cons y ys)
  show ?case
  proof (cases "y = x")
    case True
    then show ?thesis by simp
  next
    case False
    with Cons.prems have "x \<in> set ys" by simp
    with Cons.IH indexOf_absent [of ys x] False show ?thesis
      by (auto simp: Let_def)
  qed
qed

lemma indexOf_Cons_other:
  "y \<noteq> x \<Longrightarrow> x \<in> set ys \<Longrightarrow> indexOf (y # ys) x = indexOf ys x + 1"
  using indexOf_absent [of ys x] by (simp add: Let_def)

lemma indexOf_Cons_same: "indexOf (x # ys) x = 0"
  by simp

lemma indexOf_filter_le:
  "P x \<Longrightarrow> P y \<Longrightarrow> x \<in> set xs \<Longrightarrow> y \<in> set xs \<Longrightarrow>
   (indexOf (filter P xs) x \<le> indexOf (filter P xs) y) = (indexOf xs x \<le> indexOf xs y)"
proof (induction xs)
  case Nil
  then show ?case by simp
next
  case (Cons z zs)
  show ?case
  proof (cases "z = x")
    case True
    with Cons.prems have "0 \<le> indexOf (z # zs) y" "0 \<le> indexOf (filter P (z # zs)) y"
      using indexOf_member [of y "z # zs"] indexOf_member [of y "filter P (z # zs)"] by auto
    with True Cons.prems show ?thesis
      by (simp del: indexOf.simps add: indexOf_Cons_same)
  next
    case zx: False
    with Cons.prems have xz: "x \<in> set zs" by simp
    then have xf: "x \<in> set (filter P zs)" using Cons.prems by simp
    show ?thesis
    proof (cases "z = y")
      case True
      with zx xz xf Cons.prems indexOf_member [of x zs] indexOf_member [of x "filter P zs"]
      show ?thesis by (simp del: indexOf.simps add: indexOf_Cons_same indexOf_Cons_other)
    next
      case zy: False
      with Cons.prems have yz: "y \<in> set zs" by simp
      then have yf: "y \<in> set (filter P zs)" using Cons.prems by simp
      from Cons.IH Cons.prems xz yz
      have IH: "(indexOf (filter P zs) x \<le> indexOf (filter P zs) y) = (indexOf zs x \<le> indexOf zs y)"
        by simp
      show ?thesis
        using zx zy xz yz xf yf IH by (simp del: indexOf.simps add: indexOf_Cons_same indexOf_Cons_other)
    qed
  qed
qed

lemma set_first_occurrences: "set (first_occurrences xs) = set xs"
  by (induction xs) auto

lemma indexOf_first_occurrences_le:
  "x \<in> set xs \<Longrightarrow> y \<in> set xs \<Longrightarrow>
   (indexOf (first_occurrences xs) x \<le> indexOf (first_occurrences xs) y)
     = (indexOf xs x \<le> indexOf xs y)"
proof (induction xs)
  case Nil
  then show ?case by simp
next
  case (Cons z zs)
  let ?D = "first_occurrences zs"
  show ?case
  proof (cases "z = x")
    case True
    have "y \<in> set (first_occurrences (z # zs))"
      using Cons.prems(2) by (simp only: set_first_occurrences)
    with Cons.prems(2)
    have "0 \<le> indexOf (z # zs) y" "0 \<le> indexOf (first_occurrences (z # zs)) y"
      by (simp_all only: indexOf_member)
    with True show ?thesis
      by (simp only: first_occurrences.simps indexOf_Cons_same)
  next
    case zx: False
    with Cons.prems have xz: "x \<in> set zs" by simp
    then have xd: "x \<in> set ?D" by (simp add: set_first_occurrences)
    with zx have xf: "x \<in> set (filter (\<lambda>u. u \<noteq> z) ?D)" by auto
    show ?thesis
    proof (cases "z = y")
      case True
      with zx xz xf indexOf_member [of x zs] indexOf_member [of x "filter (\<lambda>u. u \<noteq> z) ?D"]
      show ?thesis by (simp del: indexOf.simps add: indexOf_Cons_same indexOf_Cons_other)
    next
      case zy: False
      with Cons.prems have yz: "y \<in> set zs" by simp
      then have yd: "y \<in> set ?D" by (simp add: set_first_occurrences)
      with zy have yf: "y \<in> set (filter (\<lambda>u. u \<noteq> z) ?D)" by auto
      have "(indexOf (filter (\<lambda>u. u \<noteq> z) ?D) x \<le> indexOf (filter (\<lambda>u. u \<noteq> z) ?D) y)
              = (indexOf ?D x \<le> indexOf ?D y)"
        using zx zy xd yd by (intro indexOf_filter_le) auto
      also have "\<dots> = (indexOf zs x \<le> indexOf zs y)"
        using Cons.IH xz yz by simp
      finally show ?thesis
        using zx zy xz yz xf yf by (simp del: indexOf.simps add: indexOf_Cons_same indexOf_Cons_other)
    qed
  qed
qed

lemma set_insert_sorted: "set (insert_sorted cmp x xs) = insert x (set xs)"
  by (induction xs) auto

lemma set_array_sort: "set (array_sort cmp xs) = set xs"
  by (induction xs) (simp_all add: set_insert_sorted)

lemma mset_insert_sorted: "mset (insert_sorted cmp x xs) = add_mset x (mset xs)"
  by (induction xs) simp_all

lemma mset_array_sort: "mset (array_sort cmp xs) = mset xs"
  by (induction xs) (simp_all add: mset_insert_sorted)

lemma insert_sorted_cong:
  "(\<And>y. y \<in> set xs \<Longrightarrow> c1 x y = c2 x y) \<Longrightarrow> insert_sorted c1 x xs = insert_sorted c2 x xs"
  by (induction xs) simp_all

lemma array_sort_cong:
  "(\<And>x y. x \<in> set xs \<Longrightarrow> y \<in> set xs \<Longrightarrow> c1 x y = c2 x y) \<Longrightarrow>
   array_sort c1 xs = array_sort c2 xs"
proof (induction xs)
  case Nil
  show ?case by simp
next
  case (Cons x xs)
  then have "array_sort c1 xs = array_sort c2 xs" by simp
  moreover have "insert_sorted c1 x (array_sort c2 xs) = insert_sorted c2 x (array_sort c2 xs)"
    using Cons.prems by (intro insert_sorted_cong) (simp add: set_array_sort)
  ultimately show ?case by simp
qed

lemma sorted_wrt_insert_sorted:
  assumes total: "\<And>x y. \<not> cmp x y \<le> 0 \<Longrightarrow> cmp y x \<le> 0"
    and trans: "\<And>x y z. cmp x y \<le> 0 \<Longrightarrow> cmp y z \<le> 0 \<Longrightarrow> cmp x z \<le> 0"
  shows "sorted_wrt (\<lambda>a b. cmp a b \<le> 0) xs \<Longrightarrow>
         sorted_wrt (\<lambda>a b. cmp a b \<le> 0) (insert_sorted cmp x xs)"
proof (induction xs)
  case Nil
  show ?case by simp
next
  case (Cons y ys)
  from Cons.prems have tail: "sorted_wrt (\<lambda>a b. cmp a b \<le> 0) ys"
    and head: "\<forall>z \<in> set ys. cmp y z \<le> 0" by simp_all
  show ?case
  proof (cases "cmp x y \<le> 0")
    case True
    have "\<forall>z \<in> set ys. cmp x z \<le> 0"
    proof
      fix z assume "z \<in> set ys"
      with head have "cmp y z \<le> 0" by simp
      with True show "cmp x z \<le> 0" by (rule trans)
    qed
    with True head tail show ?thesis by simp
  next
    case False
    then have yx: "cmp y x \<le> 0" by (rule total)
    from tail have "sorted_wrt (\<lambda>a b. cmp a b \<le> 0) (insert_sorted cmp x ys)"
      by (rule Cons.IH)
    with False yx head show ?thesis by (simp add: set_insert_sorted)
  qed
qed

lemma sorted_wrt_array_sort:
  assumes total: "\<And>x y. \<not> cmp x y \<le> 0 \<Longrightarrow> cmp y x \<le> 0"
    and trans: "\<And>x y z. cmp x y \<le> 0 \<Longrightarrow> cmp y z \<le> 0 \<Longrightarrow> cmp x z \<le> 0"
  shows "sorted_wrt (\<lambda>a b. cmp a b \<le> 0) (array_sort cmp xs)"
proof (induction xs)
  case Nil
  show ?case by simp
next
  case (Cons x xs)
  from total trans Cons.IH
  have "sorted_wrt (\<lambda>a b. cmp a b \<le> 0) (insert_sorted cmp x (array_sort cmp xs))"
    by (rule sorted_wrt_insert_sorted)
  then show ?case by simp
qed

lemma lex_le_total:
  fixes i j :: int and n m :: "'a::linorder"
  shows "\<not> (i < j \<or> i = j \<and> n \<le> m) \<Longrightarrow> j < i \<or> j = i \<and> m \<le> n"
  by (cases i j rule: linorder_cases) simp_all

lemma lex_le_trans:
  fixes i j k :: int and n m l :: "'a::linorder"
  shows "i < j \<or> i = j \<and> n \<le> m \<Longrightarrow> j < k \<or> j = k \<and> m \<le> l \<Longrightarrow> i < k \<or> i = k \<and> n \<le> l"
  by (cases i j rule: linorder_cases; cases j k rule: linorder_cases) simp_all

lemma compareRefinements_le:
  "compareRefinements attrs others a b \<le> 0 \<longleftrightarrow>
     getRestrictedIndexForSort attrs others (attributeName a)
       < getRestrictedIndexForSort attrs others (attributeName b) \<or>
     getRestrictedIndexForSort attrs others (attributeName a)
       = getRestrictedIndexForSort attrs others (attributeName b) \<and> name a \<le> name b"
  by (simp add: compareRefinements_def Let_def order.order_iff_strict)

lemma sorted_by_compareRefinements:
  "sorted_wrt (\<lambda>a b. compareRefinements attrs others a b \<le> 0)
     (array_sort (compareRefinements attrs others) xs)"
proof (rule sorted_wrt_array_sort)
  fix x y
  assume "\<not> compareRefinements attrs others x y \<le> 0"
  then show "compareRefinements attrs others y x \<le> 0"
    unfolding compareRefinements_le by (rule lex_le_total)
next
  fix x y z
  assume "compareRefinements attrs others x y \<le> 0" "compareRefinements attrs others y z \<le> 0"
  then show "compareRefinements attrs others x z \<le> 0"
    unfolding compareRefinements_le by (rule lex_le_trans)
qed

section \<open>Facts about the connector\<close>

lemma js_string_neq [simp]:
  "js ''undefined'' \<noteq> js ''string''" "js ''object'' \<noteq> js ''string''"
  "js ''boolean'' \<noteq> js ''string''" "js ''number'' \<noteq> js ''string''"
  by (simp_all add: js_def)

lemma typeof_string_iff: "typeof v = js ''string'' \<longleftrightarrow> (\<exists>s. v = JStr s)"
  by (cases v) simp_all

lemma ge_neq_le: "js ''>='' \<noteq> js ''<=''"
  by (simp add: js_def)

lemma computeLabel_eq:
  "computeLabel r = r\<lparr>computedLabel := Some (spec_label (name r) (operator r))\<rparr>"
proof (cases "operator r")
  case None
  then show ?thesis by (simp add: computeLabel_def spec_label_def)
next
  case (Some v)
  then show ?thesis
    by (cases v) (simp_all add: computeLabel_def spec_label_def readProp_def ge_neq_le)
qed

lemma indexOf_bool_in_strings: "indexOf (map JStr res) (JBool b) = - 1"
  by (simp add: indexOf_absent image_iff)

lemma otherAttributeNames_fold:
  "fold (\<lambda>refinement res.
           if indexOf attrs (attributeName refinement) = - 1 \<and>
              truthy (indexOf (map JStr res)
                        (JBool (strict_equals (JStr (attributeName refinement)) (JNum (- 1)))))
           then res @ [attributeName refinement]
           else res) raw acc
   = acc @ filter (\<lambda>x. x \<notin> set attrs) (map attributeName raw)"
  by (induction raw arbitrary: acc)
    (simp_all add: indexOf_bool_in_strings truthy_def indexOf_absent)

lemma otherAttributeNames_eq:
  "otherAttributeNames attrs raw = filter (\<lambda>x. x \<notin> set attrs) (map attributeName raw)"
  by (simp add: otherAttributeNames_def otherAttributeNames_fold)

lemma spec_otherNames_fold:
  "fold (\<lambda>refinement res.
           if indexOf attrs (attributeName refinement) = - 1 \<and>
              indexOf res (attributeName refinement) = - 1
           then res @ [attributeName refinement]
           else res) raw acc
   = acc @ filter (\<lambda>x. x \<notin> set acc)
             (first_occurrences (filter (\<lambda>x. x \<notin> set attrs) (map attributeName raw)))"
  (is "fold ?step raw acc = _")
proof (induction raw arbitrary: acc)
  case Nil
  show ?case by simp
next
  case (Cons r raw)
  let ?a = "attributeName r"
  let ?D = "first_occurrences (filter (\<lambda>x. x \<notin> set attrs) (map attributeName raw))"
  show ?case
  proof (cases "?a \<in> set attrs")
    case True
    then have "fold ?step (r # raw) acc = fold ?step raw acc"
      by (simp add: indexOf_absent)
    with True show ?thesis by (simp add: Cons.IH)
  next
    case unlisted: False
    show ?thesis
    proof (cases "?a \<in> set acc")
      case True
      have "filter (\<lambda>x. x \<notin> set acc) (filter (\<lambda>y. y \<noteq> ?a) ?D) = filter (\<lambda>x. x \<notin> set acc) ?D"
        using True by (simp only: filter_filter) (rule filter_cong, auto)
      moreover have "fold ?step (r # raw) acc = fold ?step raw acc"
        using True by (simp add: indexOf_absent)
      ultimately show ?thesis
        using unlisted True by (simp add: Cons.IH)
    next
      case False
      have "filter (\<lambda>x. x \<notin> set (acc @ [?a])) ?D
            = filter (\<lambda>x. x \<notin> set acc) (filter (\<lambda>y. y \<noteq> ?a) ?D)"
        by (simp only: filter_filter) (rule filter_cong, auto)
      moreover have "fold ?step (r # raw) acc = fold ?step raw (acc @ [?a])"
        using False unlisted by (simp add: indexOf_absent)
      ultimately show ?thesis
        using unlisted False by (simp add: Cons.IH)
    qed
  qed
qed

lemma spec_otherNames_eq:
  "spec_otherNames attrs raw
   = first_occurrences (filter (\<lambda>x. x \<notin> set attrs) (map attributeName raw))"
  by (simp add: spec_otherNames_def spec_otherNames_fold)

lemma set_getFilteredRefinements:
  "set (getFilteredRefinements g res st attrs flag) \<subseteq> computeLabel ` set (g res st)"
  by (auto simp: getFilteredRefinements_def Let_def set_array_sort)

lemma listed_filter_eq:
  "filter (\<lambda>refinement. indexOf attrs (attributeName refinement) \<noteq> - 1) xs
   = filter (\<lambda>r. attributeName r \<in> set attrs) xs"
  by (simp add: indexOf_absent)

lemma getRestrictedIndexForSort_listed:
  "x \<in> set attrs \<Longrightarrow>
   getRestrictedIndexForSort attrs others x = indexOf attrs x \<and>
   0 \<le> indexOf attrs x \<and> indexOf attrs x < int (length attrs)"
  using indexOf_member [of x attrs] indexOf_absent [of attrs x]
  by (simp add: getRestrictedIndexForSort_def Let_def)

lemma getRestrictedIndexForSort_unlisted:
  "x \<notin> set attrs \<Longrightarrow> x \<in> set others \<Longrightarrow>
   getRestrictedIndexForSort attrs others x = int (length attrs) + indexOf others x \<and>
   0 \<le> indexOf others x"
  using indexOf_member [of x others] indexOf_absent [of attrs x]
  by (simp add: getRestrictedIndexForSort_def Let_def)


lemma ordering_key_ok_computeLabel:
  "ordering_key_ok attrs raw (computeLabel a) (computeLabel b) = ordering_key_ok attrs raw a b"
  by (simp add: ordering_key_ok_def computeLabel_eq)

lemma compareRefinements_le_ordering_key_ok:
  assumes a: "a \<in> set raw" and b: "b \<in> set raw"
    and le: "compareRefinements attrs (otherAttributeNames attrs raw) a b \<le> 0"
  shows "ordering_key_ok attrs raw a b"
proof -
  let ?all = "map attributeName raw"
  let ?L = "filter (\<lambda>x. x \<notin> set attrs) ?all"
  let ?x = "attributeName a" and ?y = "attributeName b"
  let ?i = "getRestrictedIndexForSort attrs ?L"
  from a b have mem: "?x \<in> set ?all" "?y \<in> set ?all" by simp_all
  from le have key: "?i ?x < ?i ?y \<or> ?i ?x = ?i ?y \<and> name a \<le> name b"
    by (simp only: compareRefinements_le otherAttributeNames_eq)
  have c1: "?x \<in> set attrs" if "?y \<in> set attrs"
  proof (rule ccontr)
    assume xu: "?x \<notin> set attrs"
    with mem have "?x \<in> set ?L" by simp
    with xu that key show False
      using getRestrictedIndexForSort_listed [of ?y attrs ?L]
        getRestrictedIndexForSort_unlisted [of ?x attrs ?L]
      by linarith
  qed
  have c2: "indexOf attrs ?x \<le> indexOf attrs ?y" if "?x \<in> set attrs" "?y \<in> set attrs"
    using that key getRestrictedIndexForSort_listed [of ?y attrs ?L]
      getRestrictedIndexForSort_listed [of ?x attrs ?L]
    by linarith
  have c3: "indexOf ?all ?x \<le> indexOf ?all ?y" if xu: "?x \<notin> set attrs" and yu: "?y \<notin> set attrs"
  proof -
    from xu yu mem have inL: "?x \<in> set ?L" "?y \<in> set ?L" by simp_all
    with xu yu key have "indexOf ?L ?x \<le> indexOf ?L ?y"
      using getRestrictedIndexForSort_unlisted [of ?y attrs ?L]
        getRestrictedIndexForSort_unlisted [of ?x attrs ?L]
      by linarith
    moreover have "(indexOf ?L ?x \<le> indexOf ?L ?y) = (indexOf ?all ?x \<le> indexOf ?all ?y)"
      using xu yu mem by (intro indexOf_filter_le)
    ultimately show ?thesis by simp
  qed
  have c4: "name a \<le> name b" if "?x = ?y"
    using that key by simp
  from c1 c2 c3 c4 show ?thesis
    unfolding ordering_key_ok_def by blast
qed

lemma getRestrictedIndexForSort_tails:
  assumes x: "x \<in> set (map attributeName raw)" and y: "y \<in> set (map attributeName raw)"
  shows "(getRestrictedIndexForSort attrs (otherAttributeNames attrs raw) x
            \<le> getRestrictedIndexForSort attrs (otherAttributeNames attrs raw) y)
         = (getRestrictedIndexForSort attrs (spec_otherNames attrs raw) x
            \<le> getRestrictedIndexForSort attrs (spec_otherNames attrs raw) y)"
proof -
  let ?L = "filter (\<lambda>x. x \<notin> set attrs) (map attributeName raw)"
  let ?D = "first_occurrences ?L"
  have L: "otherAttributeNames attrs raw = ?L" by (rule otherAttributeNames_eq)
  have D: "spec_otherNames attrs raw = ?D" by (rule spec_otherNames_eq)
  have inL: "z \<in> set ?L" "z \<in> set ?D"
    if "z \<notin> set attrs" "z \<in> set (map attributeName raw)" for z
    using that by (simp_all only: set_first_occurrences) simp_all
  show ?thesis
  proof (cases "x \<in> set attrs")
    case xl: True
    show ?thesis
    proof (cases "y \<in> set attrs")
      case True
      with xl show ?thesis by (simp add: getRestrictedIndexForSort_listed)
    next
      case False
      have "y \<in> set ?L" "y \<in> set ?D" using inL [OF False y] by blast+
      with False xl show ?thesis
        unfolding L D
        using getRestrictedIndexForSort_listed [of x attrs ?L]
          getRestrictedIndexForSort_listed [of x attrs ?D]
          getRestrictedIndexForSort_unlisted [of y attrs ?L]
          getRestrictedIndexForSort_unlisted [of y attrs ?D]
        by linarith
    qed
  next
    case xu: False
    have xL: "x \<in> set ?L" "x \<in> set ?D" using inL [OF xu x] by blast+
    show ?thesis
    proof (cases "y \<in> set attrs")
      case True
      with xu xL show ?thesis
        unfolding L D
        using getRestrictedIndexForSort_listed [of y attrs ?L]
          getRestrictedIndexForSort_listed [of y attrs ?D]
          getRestrictedIndexForSort_unlisted [of x attrs ?L]
          getRestrictedIndexForSort_unlisted [of x attrs ?D]
        by linarith
    next
      case False
      have yL: "y \<in> set ?L" "y \<in> set ?D" using inL [OF False y] by blast+
      have "(indexOf ?D x \<le> indexOf ?D y) = (indexOf ?L x \<le> indexOf ?L y)"
        using xL(1) yL(1) by (rule indexOf_first_occurrences_le)
      with xu False xL yL show ?thesis
        unfolding L D
        using getRestrictedIndexForSort_unlisted [of y attrs ?L]
          getRestrictedIndexForSort_unlisted [of y attrs ?D]
          getRestrictedIndexForSort_unlisted [of x attrs ?L]
          getRestrictedIndexForSort_unlisted [of x attrs ?D]
        by linarith
    qed
  qed
qed

lemma compareRefinements_tails:
  assumes a: "a \<in> set raw" and b: "b \<in> set raw"
  shows "compareRefinements attrs (otherAttributeNames attrs raw) a b
         = compareRefinements attrs (spec_otherNames attrs raw) a b"
proof -
  let ?i = "getRestrictedIndexForSort attrs (otherAttributeNames attrs raw)"
  let ?j = "getRestrictedIndexForSort attrs (spec_otherNames attrs raw)"
  from a b have m: "attributeName a \<in> set (map attributeName raw)"
    "attributeName b \<in> set (map attributeName raw)" by simp_all
  have ab: "(?i (attributeName a) \<le> ?i (attributeName b)) = (?j (attributeName a) \<le> ?j (attributeName b))"
    using m by (rule getRestrictedIndexForSort_tails)
  have ba: "(?i (attributeName b) \<le> ?i (attributeName a)) = (?j (attributeName b) \<le> ?j (attributeName a))"
    using m(2) m(1) by (rule getRestrictedIndexForSort_tails)
  have eq: "(?i (attributeName a) = ?i (attributeName b)) = (?j (attributeName a) = ?j (attributeName b))"
    using ab ba by linarith
  have lt: "(?i (attributeName a) < ?i (attributeName b)) = (?j (attributeName a) < ?j (attributeName b))"
    using ab ba by linarith
  show ?thesis
    unfolding compareRefinements_def Let_def by (simp only: eq lt)
qed

section \<open>Facts about the search state of the specification\<close>

lemma computeLabel_fields:
  "type (computeLabel r) = type r"
  "attributeName (computeLabel r) = attributeName r"
  "name (computeLabel r) = name r"
  "operator (computeLabel r) = operator r"
  "numericValue (computeLabel r) = numericValue r"
  by (simp_all add: computeLabel_eq)

lemma spec_getRefinements_kinds:
  assumes "r \<in> set (spec_getRefinements countOf showNumber tagsAttribute res S)"
  shows "type r = js ''facet'' \<and> (attributeName r, name r) \<in> set (facetsRefinements S) \<or>
         type r = js ''exclude'' \<and> (attributeName r, name r) \<in> set (facetsExcludes S) \<or>
         type r = js ''disjunctive'' \<and>
           (attributeName r, name r) \<in> set (disjunctiveFacetsRefinements S) \<or>
         type r = js ''hierarchical'' \<and>
           (attributeName r, name r) \<in> set (hierarchicalFacetsRefinements S) \<or>
         type r = js ''numeric'' \<and>
           (\<exists>op v. operator r = Some (JStr op) \<and> numericValue r = Some (JNum v) \<and>
              (attributeName r, op, v) \<in> set (numericRefinements S)) \<or>
         type r = js ''tag'' \<and> name r \<in> set (tagRefinements S)"
  using assms
  unfolding spec_getRefinements_def set_append set_map Un_iff image_iff
  by (elim disjE bexE) (auto simp: valueRefinement_def)

lemma type_literals_differ:
  "js ''facet'' \<noteq> js ''exclude''" "js ''facet'' \<noteq> js ''disjunctive''"
  "js ''facet'' \<noteq> js ''hierarchical''" "js ''facet'' \<noteq> js ''numeric''"
  "js ''facet'' \<noteq> js ''tag''" "js ''exclude'' \<noteq> js ''disjunctive''"
  "js ''exclude'' \<noteq> js ''hierarchical''" "js ''exclude'' \<noteq> js ''numeric''"
  "js ''exclude'' \<noteq> js ''tag''" "js ''disjunctive'' \<noteq> js ''hierarchical''"
  "js ''disjunctive'' \<noteq> js ''numeric''" "js ''disjunctive'' \<noteq> js ''tag''"
  "js ''hierarchical'' \<noteq> js ''numeric''" "js ''hierarchical'' \<noteq> js ''tag''"
  "js ''numeric'' \<noteq> js ''tag''"
  by (simp_all add: js_def)

lemma spec_clear_facet:
  "type r = js ''facet'' \<Longrightarrow>
   clearRefinementFromState spec_methods S r
     = Inr (spec_removeFacetRefinement S (attributeName r) (name r))"
  by (simp add: clearRefinementFromState_def spec_methods_def)

lemma spec_clear_disjunctive:
  "type r = js ''disjunctive'' \<Longrightarrow>
   clearRefinementFromState spec_methods S r
     = Inr (spec_removeDisjunctiveFacetRefinement S (attributeName r) (name r))"
  by (simp add: clearRefinementFromState_def spec_methods_def type_literals_differ [symmetric])

lemma spec_clear_hierarchical:
  "type r = js ''hierarchical'' \<Longrightarrow>
   clearRefinementFromState spec_methods S r = Inr (spec_clearRefinements S (attributeName r))"
  by (simp add: clearRefinementFromState_def spec_methods_def type_literals_differ [symmetric])

lemma spec_clear_exclude:
  "type r = js ''exclude'' \<Longrightarrow>
   clearRefinementFromState spec_methods S r
     = Inr (spec_removeExcludeRefinement S (attributeName r) (name r))"
  by (simp add: clearRefinementFromState_def spec_methods_def type_literals_differ
      type_literals_differ [symmetric])

lemma spec_clear_numeric:
  "type r = js ''numeric'' \<Longrightarrow>
   clearRefinementFromState spec_methods S r
     = Inr (spec_removeNumericRefinement S (attributeName r)
              (readProp (operator r)) (readProp (numericValue r)))"
  by (simp add: clearRefinementFromState_def spec_methods_def type_literals_differ
      type_literals_differ [symmetric])

lemma spec_clear_tag:
  "type r = js ''tag'' \<Longrightarrow>
   clearRefinementFromState spec_methods S r = Inr (spec_removeTagRefinement S (name r))"
  by (simp add: clearRefinementFromState_def spec_methods_def type_literals_differ
      type_literals_differ [symmetric])

lemma spec_getRefinements_facet:
  "r \<in> set (spec_getRefinements countOf showNumber tagsAttribute res S) \<Longrightarrow>
   type r = js ''facet'' \<Longrightarrow>
   (attributeName r, name r) \<in> set (facetsRefinements S)"
  using spec_getRefinements_kinds [of r countOf showNumber tagsAttribute res S]
  by (simp add: type_literals_differ type_literals_differ [symmetric])

lemma spec_getRefinements_exclude:
  "r \<in> set (spec_getRefinements countOf showNumber tagsAttribute res S) \<Longrightarrow>
   type r = js ''exclude'' \<Longrightarrow>
   (attributeName r, name r) \<in> set (facetsExcludes S)"
  using spec_getRefinements_kinds [of r countOf showNumber tagsAttribute res S]
  by (simp add: type_literals_differ type_literals_differ [symmetric])

lemma spec_getRefinements_disjunctive:
  "r \<in> set (spec_getRefinements countOf showNumber tagsAttribute res S) \<Longrightarrow>
   type r = js ''disjunctive'' \<Longrightarrow>
   (attributeName r, name r) \<in> set (disjunctiveFacetsRefinements S)"
  using spec_getRefinements_kinds [of r countOf showNumber tagsAttribute res S]
  by (simp add: type_literals_differ type_literals_differ [symmetric])

lemma spec_getRefinements_hierarchical:
  "r \<in> set (spec_getRefinements countOf showNumber tagsAttribute res S) \<Longrightarrow>
   type r = js ''hierarchical'' \<Longrightarrow>
   (attributeName r, name r) \<in> set (hierarchicalFacetsRefinements S)"
  using spec_getRefinements_kinds [of r countOf showNumber tagsAttribute res S]
  by (simp add: type_literals_differ type_literals_differ [symmetric])

lemma spec_getRefinements_numeric:
  "r \<in> set (spec_getRefinements countOf showNumber tagsAttribute res S) \<Longrightarrow>
   type r = js ''numeric'' \<Longrightarrow>
   \<exists>op v. operator r = Some (JStr op) \<and> numericValue r = Some (JNum v) \<and>
     (attributeName r, op, v) \<in> set (numericRefinements S)"
  using spec_getRefinements_kinds [of r countOf showNumber tagsAttribute res S]
  by (simp add: type_literals_differ type_literals_differ [symmetric])

lemma spec_getRefinements_tag:
  "r \<in> set (spec_getRefinements countOf showNumber tagsAttribute res S) \<Longrightarrow>
   type r = js ''tag'' \<Longrightarrow>
   name r \<in> set (tagRefinements S)"
  using spec_getRefinements_kinds [of r countOf showNumber tagsAttribute res S]
  by (simp add: type_literals_differ type_literals_differ [symmetric])

lemma cleared_key_absent:
  assumes r0: "r0 \<in> set (spec_getRefinements countOf showNumber tagsAttribute res S)"
    and same: "type r = type r0" "attributeName r = attributeName r0" "name r = name r0"
      "operator r = operator r0" "numericValue r = numericValue r0"
  shows "\<exists>S'. clearRefinementFromState spec_methods S r = Inr S' \<and>
           (\<forall>r1 \<in> set (spec_getRefinements countOf' showNumber' tagsAttribute' res' S').
              \<not> (type r1 = type r \<and> attributeName r1 = attributeName r \<and> name r1 = name r \<and>
                 operator r1 = operator r \<and> numericValue r1 = numericValue r))"
proof -
  let ?raw = "spec_getRefinements countOf' showNumber' tagsAttribute' res'"
  let ?same = "\<lambda>r1. type r1 = type r \<and> attributeName r1 = attributeName r \<and> name r1 = name r \<and>
                 operator r1 = operator r \<and> numericValue r1 = numericValue r"
  from spec_getRefinements_kinds [OF r0]
  consider (facet) "type r0 = js ''facet''"
    | (exclude) "type r0 = js ''exclude''"
    | (disjunctive) "type r0 = js ''disjunctive''"
    | (hierarchical) "type r0 = js ''hierarchical''"
    | (numeric) "type r0 = js ''numeric''"
      "\<exists>op v. operator r0 = Some (JStr op) \<and> numericValue r0 = Some (JNum v)"
    | (tag) "type r0 = js ''tag''"
    by blast
  then show ?thesis
  proof cases
    case facet
    let ?S = "spec_removeFacetRefinement S (attributeName r) (name r)"
    have "\<not> ?same r1" if "r1 \<in> set (?raw ?S)" for r1
    proof
      assume k: "?same r1"
      with facet same have "type r1 = js ''facet''" by simp
      with that have "(attributeName r1, name r1) \<in> set (facetsRefinements ?S)"
        by (rule spec_getRefinements_facet)
      with k show False by (simp add: spec_removeFacetRefinement_def)
    qed
    moreover from facet same have "clearRefinementFromState spec_methods S r = Inr ?S"
      by (simp add: spec_clear_facet)
    ultimately show ?thesis by blast
  next
    case exclude
    let ?S = "spec_removeExcludeRefinement S (attributeName r) (name r)"
    have "\<not> ?same r1" if "r1 \<in> set (?raw ?S)" for r1
    proof
      assume k: "?same r1"
      with exclude same have "type r1 = js ''exclude''" by simp
      with that have "(attributeName r1, name r1) \<in> set (facetsExcludes ?S)"
        by (rule spec_getRefinements_exclude)
      with k show False by (simp add: spec_removeExcludeRefinement_def)
    qed
    moreover from exclude same have "clearRefinementFromState spec_methods S r = Inr ?S"
      by (simp add: spec_clear_exclude)
    ultimately show ?thesis by blast
  next
    case disjunctive
    let ?S = "spec_removeDisjunctiveFacetRefinement S (attributeName r) (name r)"
    have "\<not> ?same r1" if "r1 \<in> set (?raw ?S)" for r1
    proof
      assume k: "?same r1"
      with disjunctive same have "type r1 = js ''disjunctive''" by simp
      with that have "(attributeName r1, name r1) \<in> set (disjunctiveFacetsRefinements ?S)"
        by (rule spec_getRefinements_disjunctive)
      with k show False by (simp add: spec_removeDisjunctiveFacetRefinement_def)
    qed
    moreover from disjunctive same have "clearRefinementFromState spec_methods S r = Inr ?S"
      by (simp add: spec_clear_disjunctive)
    ultimately show ?thesis by blast
  next
    case hierarchical
    let ?S = "spec_clearRefinements S (attributeName r)"
    have "\<not> ?same r1" if "r1 \<in> set (?raw ?S)" for r1
    proof
      assume k: "?same r1"
      with hierarchical same have "type r1 = js ''hierarchical''" by simp
      with that have "(attributeName r1, name r1) \<in> set (hierarchicalFacetsRefinements ?S)"
        by (rule spec_getRefinements_hierarchical)
      with k show False by (simp add: spec_clearRefinements_def)
    qed
    moreover from hierarchical same have "clearRefinementFromState spec_methods S r = Inr ?S"
      by (simp add: spec_clear_hierarchical)
    ultimately show ?thesis by blast
  next
    case numeric
    let ?S = "spec_removeNumericRefinement S (attributeName r)
                (readProp (operator r)) (readProp (numericValue r))"
    have "\<not> ?same r1" if "r1 \<in> set (?raw ?S)" for r1
    proof
      assume k: "?same r1"
      with numeric same have t1: "type r1 = js ''numeric''" by simp
      from spec_getRefinements_numeric [OF that t1]
      obtain op v where ov: "operator r1 = Some (JStr op)"
        "numericValue r1 = Some (JNum v)"
        "(attributeName r1, op, v) \<in> set (numericRefinements ?S)"
        by blast
      from k ov have "operator r = Some (JStr op)" "numericValue r = Some (JNum v)"
        "attributeName r1 = attributeName r" by simp_all
      with ov(3) show False
        by (simp add: spec_removeNumericRefinement_def readProp_def strict_equals_def)
    qed
    moreover from numeric same have "clearRefinementFromState spec_methods S r = Inr ?S"
      by (simp add: spec_clear_numeric)
    ultimately show ?thesis by blast
  next
    case tag
    let ?S = "spec_removeTagRefinement S (name r)"
    have "\<not> ?same r1" if "r1 \<in> set (?raw ?S)" for r1
    proof
      assume k: "?same r1"
      with tag same have "type r1 = js ''tag''" by simp
      with that have "name r1 \<in> set (tagRefinements ?S)"
        by (rule spec_getRefinements_tag)
      with k show False by (simp add: spec_removeTagRefinement_def)
    qed
    moreover from tag same have "clearRefinementFromState spec_methods S r = Inr ?S"
      by (simp add: spec_clear_tag)
    ultimately show ?thesis by blast
  qed
qed

lemma spec_mutators_idempotent:
  "spec_removeFacetRefinement (spec_removeFacetRefinement S a v) a v
     = spec_removeFacetRefinement S a v"
  "spec_removeDisjunctiveFacetRefinement (spec_removeDisjunctiveFacetRefinement S a v) a v
     = spec_removeDisjunctiveFacetRefinement S a v"
  "spec_clearRefinements (spec_clearRefinements S a) a = spec_clearRefinements S a"
  "spec_removeExcludeRefinement (spec_removeExcludeRefinement S a v) a v
     = spec_removeExcludeRefinement S a v"
  "spec_removeNumericRefinement (spec_removeNumericRefinement S a opv numv) a opv numv
     = spec_removeNumericRefinement S a opv numv"
  "spec_removeTagRefinement (spec_removeTagRefinement S v) v = spec_removeTagRefinement S v"
  by (simp_all add: spec_removeFacetRefinement_def spec_removeDisjunctiveFacetRefinement_def
      spec_clearRefinements_def spec_removeExcludeRefinement_def
      spec_removeNumericRefinement_def spec_removeTagRefinement_def)

section \<open>The claims\<close>

text \<open>
  Claim C1. The list that \<open>getFilteredRefinements\<close> returns is sorted by the Ordering
  Key: of two records, the earlier one \<open>a\<close> and the later one \<open>b\<close> satisfy
  \<open>ordering_key_ok\<close>, that is, \<open>b\<close> has a declared attribute only if \<open>a\<close> has one,
  two declared attributes stand in declared order, two undeclared attributes stand in the
  order in which they are first seen in the raw refinements, and within one attribute the
  names ascend. This holds for every raw list, declared list and flag.
\<close>

theorem getFilteredRefinements_sorted:
  "sorted_wrt (ordering_key_ok attrs (g res st)) (getFilteredRefinements g res st attrs flag)"
proof -
  let ?raw = "g res st"
  let ?cmp = "compareRefinements attrs (otherAttributeNames attrs ?raw)"
  let ?ok = "\<lambda>a b. ordering_key_ok attrs ?raw (computeLabel a) (computeLabel b)"
  have "sorted_wrt (\<lambda>a b. ?cmp a b \<le> 0) (array_sort ?cmp ?raw)"
    by (rule sorted_by_compareRefinements)
  moreover have "?ok a b"
    if "a \<in> set (array_sort ?cmp ?raw)" "b \<in> set (array_sort ?cmp ?raw)" "?cmp a b \<le> 0"
    for a b
    using that
    by (simp only: set_array_sort ordering_key_ok_computeLabel
        compareRefinements_le_ordering_key_ok)
  ultimately have sorted: "sorted_wrt ?ok (array_sort ?cmp ?raw)"
    by (rule sorted_wrt_mono_rel [rotated])
  then have "sorted_wrt ?ok (filter P (array_sort ?cmp ?raw))" for P
    by (rule sorted_wrt_filter)
  with sorted show ?thesis
    by (simp add: getFilteredRefinements_def Let_def sorted_wrt_map)
qed

theorem getFilteredRefinements_sorted_witness:
  "getFilteredRefinements (\<lambda>results state. example_mixed) () () [js ''color''] False
     = map computeLabel
         [facet_color_blue, facet_color_red, tag_sale, numeric_price (js ''>='') (js ''10'') 10] \<and>
   sorted_wrt (ordering_key_ok [js ''color''] example_mixed)
     (map computeLabel
        [facet_color_blue, facet_color_red, tag_sale, numeric_price (js ''>='') (js ''10'') 10])"
proof -
  have out: "getFilteredRefinements (\<lambda>results state. example_mixed) () () [js ''color''] False
     = map computeLabel
         [facet_color_blue, facet_color_red, tag_sale, numeric_price (js ''>='') (js ''10'') 10]"
    by (simp add: getFilteredRefinements_def otherAttributeNames_def truthy_def strict_equals_def
        compareRefinements_def getRestrictedIndexForSort_def example_mixed_def
        facet_color_red_def facet_color_blue_def tag_sale_def numeric_price_def js_def)
  from getFilteredRefinements_sorted
    [where g = "\<lambda>results state. example_mixed" and res = "()" and st = "()"
      and attrs = "[js ''color'']" and flag = False]
  show ?thesis by (simp only: out simp_thms)
qed

text \<open>
  Claim C2. For a record of one of the six kinds, \<open>clearRefinementFromState\<close> returns
  what the method of that kind returns: \<open>removeFacetRefinement\<close>,
  \<open>removeDisjunctiveFacetRefinement\<close> and \<open>removeExcludeRefinement\<close> on the attribute
  name and the name, \<open>clearRefinements\<close> on the attribute name alone for a hierarchical
  record, \<open>removeNumericRefinement\<close> on the attribute name, the operator and the numeric
  value, and \<open>removeTagRefinement\<close> on the name, whatever the attribute name of the tag
  record is.
\<close>

theorem clearRefinementFromState_dispatch:
  "(type r = js ''facet'' \<longrightarrow>
      clearRefinementFromState m s r
        = Inr (removeFacetRefinement m s (attributeName r) (name r))) \<and>
   (type r = js ''disjunctive'' \<longrightarrow>
      clearRefinementFromState m s r
        = Inr (removeDisjunctiveFacetRefinement m s (attributeName r) (name r))) \<and>
   (type r = js ''hierarchical'' \<longrightarrow>
      clearRefinementFromState m s r = Inr (clearRefinements m s (attributeName r))) \<and>
   (type r = js ''exclude'' \<longrightarrow>
      clearRefinementFromState m s r
        = Inr (removeExcludeRefinement m s (attributeName r) (name r))) \<and>
   (type r = js ''numeric'' \<longrightarrow>
      clearRefinementFromState m s r
        = Inr (removeNumericRefinement m s (attributeName r)
                 (readProp (operator r)) (readProp (numericValue r)))) \<and>
   (type r = js ''tag'' \<longrightarrow>
      clearRefinementFromState m s (r\<lparr>attributeName := a\<rparr>)
        = Inr (removeTagRefinement m s (name r)))"
proof (intro conjI impI)
  assume "type r = js ''facet''"
  then show "clearRefinementFromState m s r
      = Inr (removeFacetRefinement m s (attributeName r) (name r))"
    by (simp add: clearRefinementFromState_def)
next
  assume "type r = js ''disjunctive''"
  then show "clearRefinementFromState m s r
      = Inr (removeDisjunctiveFacetRefinement m s (attributeName r) (name r))"
    by (simp add: clearRefinementFromState_def js_def)
next
  assume "type r = js ''hierarchical''"
  then show "clearRefinementFromState m s r = Inr (clearRefinements m s (attributeName r))"
    by (simp add: clearRefinementFromState_def js_def)
next
  assume "type r = js ''exclude''"
  then show "clearRefinementFromState m s r
      = Inr (removeExcludeRefinement m s (attributeName r) (name r))"
    by (simp add: clearRefinementFromState_def js_def)
next
  assume "type r = js ''numeric''"
  then show "clearRefinementFromState m s r
      = Inr (removeNumericRefinement m s (attributeName r)
               (readProp (operator r)) (readProp (numericValue r)))"
    by (simp add: clearRefinementFromState_def js_def)
next
  assume "type r = js ''tag''"
  then show "clearRefinementFromState m s (r\<lparr>attributeName := a\<rparr>)
      = Inr (removeTagRefinement m s (name r))"
    by (simp add: clearRefinementFromState_def js_def)
qed

theorem clearRefinementFromState_dispatch_witness:
  "clearRefinementFromState spec_methods example_state facet_color_red
     = Inr (spec_removeFacetRefinement example_state (js ''color'') (js ''red'')) \<and>
   clearRefinementFromState spec_methods example_state
       (facet_color_red\<lparr>type := js ''disjunctive''\<rparr>)
     = Inr (spec_removeDisjunctiveFacetRefinement example_state (js ''color'') (js ''red'')) \<and>
   clearRefinementFromState spec_methods example_state
       (facet_color_red\<lparr>type := js ''hierarchical''\<rparr>)
     = Inr (spec_clearRefinements example_state (js ''color'')) \<and>
   clearRefinementFromState spec_methods example_state
       (facet_color_red\<lparr>type := js ''exclude''\<rparr>)
     = Inr (spec_removeExcludeRefinement example_state (js ''color'') (js ''red'')) \<and>
   clearRefinementFromState spec_methods example_state
       (numeric_price (js ''>='') (js ''10'') 10)
     = Inr (spec_removeNumericRefinement example_state (js ''price'')
              (JStr (js ''>='')) (JNum 10)) \<and>
   clearRefinementFromState spec_methods example_state tag_sale
     = Inr (spec_removeTagRefinement example_state (js ''sale''))"
proof -
  note d = clearRefinementFromState_dispatch [where m = spec_methods and s = example_state]
  have t: "tag_sale\<lparr>attributeName := js ''_tags''\<rparr> = tag_sale"
    by (simp add: tag_sale_def)
  show ?thesis
    using d [where r = facet_color_red]
      d [where r = "facet_color_red\<lparr>type := js ''disjunctive''\<rparr>"]
      d [where r = "facet_color_red\<lparr>type := js ''hierarchical''\<rparr>"]
      d [where r = "facet_color_red\<lparr>type := js ''exclude''\<rparr>"]
      d [where r = "numeric_price (js ''>='') (js ''10'') 10"]
      d [where r = tag_sale and a = "js ''_tags''"]
    by (simp add: t spec_methods_def facet_color_red_def numeric_price_def tag_sale_def
        readProp_def)
qed

text \<open>
  Claim C3. For a record whose type is none of the six, \<open>clearRefinementFromState\<close>
  raises the error that names the type and returns no state; and it raises an error for
  these types only.
\<close>

theorem clearRefinementFromState_unhandled:
  "(type r \<notin> set handledTypes \<longrightarrow>
      clearRefinementFromState m s r
        = Inl (Error (js ''clearRefinement: type '' @ type r @ js '' is not handled''))) \<and>
   (isl (clearRefinementFromState m s r) \<longleftrightarrow> type r \<notin> set handledTypes)"
  by (simp add: clearRefinementFromState_def handledTypes_def)



theorem clearRefinementFromState_unhandled_witness:
  "js ''query'' \<notin> set handledTypes \<and>
   clearRefinementFromState spec_methods example_state (tag_sale\<lparr>type := js ''query''\<rparr>)
     = Inl (Error (js ''clearRefinement: type query is not handled'')) \<and>
   \<not> isl (clearRefinementFromState spec_methods example_state tag_sale)"
proof -
  have a: "js ''query'' \<notin> set handledTypes" "js ''tag'' \<in> set handledTypes"
    by (simp_all add: handledTypes_def js_def)
  show ?thesis
    using a
      clearRefinementFromState_unhandled
        [where r = "tag_sale\<lparr>type := js ''query''\<rparr>" and m = spec_methods
          and s = example_state]
      clearRefinementFromState_unhandled
        [where r = tag_sale and m = spec_methods and s = example_state]
    by (simp add: tag_sale_def js_def)
qed

text \<open>
  Claim C4. With \<open>onlyListedAttributes\<close> true and a non-empty declared list, the result
  holds exactly the refinements whose attribute is declared, each once (as multisets, the
  order being the sort's); with an empty declared list it holds all refinements, whatever
  the flag.
\<close>

theorem getFilteredRefinements_filter:
  "(flag \<and> attrs \<noteq> [] \<longrightarrow>
      mset (getFilteredRefinements g res st attrs flag)
        = mset (map computeLabel (filter (\<lambda>r. attributeName r \<in> set attrs) (g res st)))) \<and>
   (attrs = [] \<longrightarrow>
      mset (getFilteredRefinements g res st attrs flag) = mset (map computeLabel (g res st)))"
proof -
  have sorted: "mset (array_sort c (g res st)) = mset (g res st)" for c
    by (rule mset_array_sort)
  have a: "mset (map computeLabel (filter P (array_sort c (g res st))))
           = mset (map computeLabel (filter P (g res st)))" for P c
    by (simp only: mset_map mset_filter sorted)
  have b: "mset (map computeLabel (array_sort c (g res st)))
           = mset (map computeLabel (g res st))" for c
    by (simp only: mset_map sorted)
  show ?thesis
    by (simp add: getFilteredRefinements_def Let_def listed_filter_eq a b
        del: mset_map mset_filter)
qed

theorem getFilteredRefinements_filter_witness:
  "mset (getFilteredRefinements (\<lambda>results state. example_refinements) () () [js ''color''] True)
     = mset (map computeLabel [facet_color_red, facet_color_blue]) \<and>
   mset (getFilteredRefinements (\<lambda>results state. example_refinements) () () [] True)
     = mset (map computeLabel [facet_color_red, facet_color_blue, tag_sale])"
proof -
  let ?g = "\<lambda>(results::unit) (state::unit). example_refinements"
  have kept: "filter (\<lambda>r. attributeName r \<in> set [js ''color'']) example_refinements
              = [facet_color_red, facet_color_blue]"
    by (simp add: example_refinements_def facet_color_red_def facet_color_blue_def tag_sale_def
        js_def)
  have hyp: "True \<and> [js ''color''] \<noteq> []" by simp
  from getFilteredRefinements_filter
    [where g = ?g and res = "()" and st = "()" and attrs = "[js ''color'']" and flag = True,
      THEN conjunct1, THEN mp, OF hyp]
  have a: "mset (getFilteredRefinements ?g () () [js ''color''] True)
           = mset (map computeLabel [facet_color_red, facet_color_blue])"
    by (simp only: kept)
  from getFilteredRefinements_filter
    [where g = ?g and res = "()" and st = "()" and attrs = "[]" and flag = True,
      THEN conjunct2, THEN mp, OF refl]
  have b: "mset (getFilteredRefinements ?g () () [] True)
           = mset (map computeLabel [facet_color_red, facet_color_blue, tag_sale])"
    by (simp only: example_refinements_def)
  from a b show ?thesis by (rule conjI)
qed

text \<open>
  Claim C5. The label that \<open>computeLabel\<close> writes: the name when the record has no
  operator; the symbol U+2265, a space and the name for the operator \<^verbatim>\<open>>=\<close>; the symbol
  U+2264, a space and the name for \<^verbatim>\<open><=\<close>; and for any other operator string that
  string, a space and the name. Every record that \<open>getFilteredRefinements\<close> returns
  carries a label, and it is \<open>spec_label\<close> of the record's name and operator, a
  function of these two fields only.
\<close>

theorem computeLabel_cases:
  "(operator r = None \<longrightarrow> computedLabel (computeLabel r) = Some (name r)) \<and>
   (operator r = Some (JStr (js ''>='')) \<longrightarrow>
      computedLabel (computeLabel r) = Some ([0x2265] @ js '' '' @ name r)) \<and>
   (operator r = Some (JStr (js ''<='')) \<longrightarrow>
      computedLabel (computeLabel r) = Some ([0x2264] @ js '' '' @ name r)) \<and>
   (\<forall>op. operator r = Some (JStr op) \<and> op \<noteq> js ''>='' \<and> op \<noteq> js ''<='' \<longrightarrow>
      computedLabel (computeLabel r) = Some (op @ js '' '' @ name r)) \<and>
   (\<forall>x \<in> set (getFilteredRefinements g res st attrs flag).
      computedLabel x = Some (spec_label (name x) (operator x)))"
proof -
  have inv: "computedLabel x = Some (spec_label (name x) (operator x))"
    if "x \<in> set (getFilteredRefinements g res st attrs flag)" for x
  proof -
    from that set_getFilteredRefinements [of g res st attrs flag]
    obtain y where "x = computeLabel y" by blast
    then show ?thesis by (simp add: computeLabel_eq)
  qed
  have c1: "operator r = None \<longrightarrow> computedLabel (computeLabel r) = Some (name r)"
    by (simp add: computeLabel_eq spec_label_def)
  have c2: "operator r = Some (JStr (js ''>='')) \<longrightarrow>
      computedLabel (computeLabel r) = Some ([0x2265] @ js '' '' @ name r)"
    by (simp add: computeLabel_eq spec_label_def)
  have c3: "operator r = Some (JStr (js ''<='')) \<longrightarrow>
      computedLabel (computeLabel r) = Some ([0x2264] @ js '' '' @ name r)"
    by (simp add: computeLabel_eq spec_label_def ge_neq_le [symmetric])
  have c4: "\<forall>op. operator r = Some (JStr op) \<and> op \<noteq> js ''>='' \<and> op \<noteq> js ''<='' \<longrightarrow>
      computedLabel (computeLabel r) = Some (op @ js '' '' @ name r)"
    by (simp add: computeLabel_eq spec_label_def)
  from c1 c2 c3 c4 inv show ?thesis by blast
qed


theorem computeLabel_cases_witness:
  "computedLabel (computeLabel (numeric_price (js ''>='') (js ''10'') 10))
     = Some ([0x2265] @ js '' '' @ js ''10'') \<and>
   computedLabel (computeLabel (numeric_price (js ''<='') (js ''5'') 5))
     = Some ([0x2264] @ js '' '' @ js ''5'') \<and>
   computedLabel (computeLabel (numeric_price (js ''='') (js ''3'') 3))
     = Some (js ''='' @ js '' '' @ js ''3'') \<and>
   computedLabel (computeLabel facet_color_red) = Some (js ''red'') \<and>
   computedLabel (hd (getFilteredRefinements (\<lambda>results state. [facet_color_red]) () () [] False))
     = Some (spec_label (js ''red'') None)"
proof -
  let ?ge = "numeric_price (js ''>='') (js ''10'') 10"
  let ?le = "numeric_price (js ''<='') (js ''5'') 5"
  let ?eq = "numeric_price (js ''='') (js ''3'') 3"
  let ?g = "\<lambda>(results::unit) (state::unit). [facet_color_red]"
  let ?out = "getFilteredRefinements ?g () () [] False"
  note cases = computeLabel_cases [where g = ?g and res = "()" and st = "()" and attrs = "[]"
      and flag = False]
  have nm: "name ?ge = js ''10''" "name ?le = js ''5''" "name ?eq = js ''3''"
    "name facet_color_red = js ''red''"
    by (simp_all add: numeric_price_def facet_color_red_def)
  have "operator ?ge = Some (JStr (js ''>=''))" by (simp add: numeric_price_def)
  with cases [where r = ?ge]
  have a: "computedLabel (computeLabel ?ge) = Some ([0x2265] @ js '' '' @ name ?ge)" by blast
  have "operator ?le = Some (JStr (js ''<=''))" by (simp add: numeric_price_def)
  with cases [where r = ?le]
  have b: "computedLabel (computeLabel ?le) = Some ([0x2264] @ js '' '' @ name ?le)" by blast
  have "operator ?eq = Some (JStr (js ''='')) \<and> js ''='' \<noteq> js ''>='' \<and> js ''='' \<noteq> js ''<=''"
    by (simp add: numeric_price_def js_def)
  with cases [where r = ?eq]
  have c: "computedLabel (computeLabel ?eq) = Some (js ''='' @ js '' '' @ name ?eq)" by blast
  have "operator facet_color_red = None" by (simp add: facet_color_red_def)
  with cases [where r = facet_color_red]
  have d: "computedLabel (computeLabel facet_color_red) = Some (name facet_color_red)" by blast
  have out: "?out = [computeLabel facet_color_red]"
    by (simp add: getFilteredRefinements_def otherAttributeNames_eq)
  then have "hd ?out \<in> set ?out" by simp
  with cases [where r = facet_color_red]
  have "computedLabel (hd ?out) = Some (spec_label (name (hd ?out)) (operator (hd ?out)))"
    by blast
  moreover have "hd ?out = computeLabel facet_color_red"
    by (simp only: out list.sel)
  moreover have "name (computeLabel facet_color_red) = js ''red''"
    "operator (computeLabel facet_color_red) = None"
    by (simp_all add: computeLabel_eq facet_color_red_def)
  ultimately have e: "computedLabel (hd ?out) = Some (spec_label (js ''red'') None)" by simp
  from a b c d e show ?thesis by (simp only: nm simp_thms)
qed

text \<open>
  Claim C6, at the input where the code departs from it. Two refinements of the
  undeclared attribute \<^verbatim>\<open>color\<close> put the name twice into the tail that
  \<open>getFilteredRefinements\<close> builds: the test that should skip a name already collected
  searches the tail for a boolean, finds none and is always true.
\<close>

theorem otherAttributeNames_keeps_duplicates:
  "otherAttributeNames [] [facet_color_red, facet_color_blue] = [js ''color'', js ''color''] \<and>
   \<not> distinct (otherAttributeNames [] [facet_color_red, facet_color_blue])"
  by (simp add: otherAttributeNames_def truthy_def strict_equals_def
      facet_color_red_def facet_color_blue_def)

text \<open>
  Claim C7, on the search state of the specification. A record \<open>R\<close> that
  \<open>getFilteredRefinements\<close> returns for a state \<open>S\<close> can be cleared, and it is not
  among the records returned for the state that \<open>clearRefinementFromState\<close> gives,
  whatever the results, the declared attributes and the flag of the second extraction.
\<close>

theorem cleared_refinement_not_resurfaced:
  "R \<in> set (getFilteredRefinements (spec_getRefinements countOf showNumber tagsAttribute)
              res S attrs flag) \<Longrightarrow>
   \<exists>S'. clearRefinementFromState spec_methods S R = Inr S' \<and>
        R \<notin> set (getFilteredRefinements (spec_getRefinements countOf showNumber tagsAttribute)
                    res' S' attrs' flag')"
proof -
  let ?g = "spec_getRefinements countOf showNumber tagsAttribute"
  assume "R \<in> set (getFilteredRefinements ?g res S attrs flag)"
  with set_getFilteredRefinements [of ?g res S attrs flag]
  obtain r0 where r0: "r0 \<in> set (?g res S)" and R: "R = computeLabel r0" by blast
  from R have same: "type R = type r0" "attributeName R = attributeName r0" "name R = name r0"
      "operator R = operator r0" "numericValue R = numericValue r0"
    by (simp_all add: computeLabel_fields)
  from cleared_key_absent [OF r0 same, of countOf showNumber tagsAttribute res']
  obtain S' where S': "clearRefinementFromState spec_methods S R = Inr S'"
    and absent: "\<forall>r1 \<in> set (?g res' S').
        \<not> (type r1 = type R \<and> attributeName r1 = attributeName R \<and> name r1 = name R \<and>
           operator r1 = operator R \<and> numericValue r1 = numericValue R)"
    by blast
  have "R \<notin> set (getFilteredRefinements ?g res' S' attrs' flag')"
  proof
    assume "R \<in> set (getFilteredRefinements ?g res' S' attrs' flag')"
    with set_getFilteredRefinements [of ?g res' S' attrs' flag']
    obtain r1 where r1: "r1 \<in> set (?g res' S')" and R1: "R = computeLabel r1" by blast
    from R1 have "type r1 = type R \<and> attributeName r1 = attributeName R \<and> name r1 = name R \<and>
        operator r1 = operator R \<and> numericValue r1 = numericValue R"
      by (simp add: computeLabel_fields)
    with absent r1 show False by blast
  qed
  with S' show ?thesis by blast
qed

theorem cleared_refinement_not_resurfaced_witness:
  "getFilteredRefinements
       (spec_getRefinements (\<lambda>results ty attr val. None) (\<lambda>v. js ''10'') (js ''_tags''))
       () example_state [] False
     = map computeLabel
         [facet_color_blue, facet_color_red, numeric_price (js ''>='') (js ''10'') 10, tag_sale] \<and>
   (\<exists>S'. clearRefinementFromState spec_methods example_state (computeLabel facet_color_red)
            = Inr S' \<and>
         computeLabel facet_color_red
           \<notin> set (getFilteredRefinements
                    (spec_getRefinements (\<lambda>results ty attr val. None) (\<lambda>v. js ''10'')
                       (js ''_tags''))
                    () S' [] False))"
proof -
  let ?g = "spec_getRefinements (\<lambda>(results::unit) ty attr val. None) (\<lambda>v. js ''10'')
              (js ''_tags'')"
  have raw: "?g () example_state
       = [facet_color_red, facet_color_blue, numeric_price (js ''>='') (js ''10'') 10, tag_sale]"
    by (simp add: spec_getRefinements_def valueRefinement_def example_state_def
        facet_color_red_def facet_color_blue_def numeric_price_def tag_sale_def)
  have out: "getFilteredRefinements ?g () example_state [] False
       = map computeLabel
           [facet_color_blue, facet_color_red, numeric_price (js ''>='') (js ''10'') 10, tag_sale]"
    unfolding getFilteredRefinements_def raw
    by (simp add: otherAttributeNames_def truthy_def strict_equals_def compareRefinements_def
        getRestrictedIndexForSort_def facet_color_red_def facet_color_blue_def
        numeric_price_def tag_sale_def js_def)
  then have "computeLabel facet_color_red \<in> set (getFilteredRefinements ?g () example_state [] False)"
    by simp
  from cleared_refinement_not_resurfaced [OF this, of "()" "[]" False] out
  show ?thesis by (simp only: simp_thms)
qed

text \<open>
  Claim C8, on the search state of the specification. For a record of one of the six
  kinds, clearing returns a state, and clearing the same record from that state returns
  that state again.
\<close>

theorem clearRefinementFromState_idempotent:
  "type R \<in> set handledTypes \<Longrightarrow>
   \<exists>S'. clearRefinementFromState spec_methods S R = Inr S' \<and>
        clearRefinementFromState spec_methods S' R = Inr S'"
proof -
  assume "type R \<in> set handledTypes"
  then consider "type R = js ''facet''" | "type R = js ''disjunctive''"
    | "type R = js ''hierarchical''" | "type R = js ''exclude''" | "type R = js ''numeric''"
    | "type R = js ''tag''"
    by (auto simp: handledTypes_def)
  then show ?thesis
  proof cases
    case 1
    then show ?thesis by (simp add: spec_clear_facet spec_mutators_idempotent)
  next
    case 2
    then show ?thesis by (simp add: spec_clear_disjunctive spec_mutators_idempotent)
  next
    case 3
    then show ?thesis by (simp add: spec_clear_hierarchical spec_mutators_idempotent)
  next
    case 4
    then show ?thesis by (simp add: spec_clear_exclude spec_mutators_idempotent)
  next
    case 5
    then show ?thesis by (simp add: spec_clear_numeric spec_mutators_idempotent)
  next
    case 6
    then show ?thesis by (simp add: spec_clear_tag spec_mutators_idempotent)
  qed
qed

theorem clearRefinementFromState_idempotent_witness:
  "type facet_color_red \<in> set handledTypes \<and>
   clearRefinementFromState spec_methods example_state facet_color_red
     = Inr (example_state\<lparr>facetsRefinements := [(js ''color'', js ''blue'')]\<rparr>) \<and>
   clearRefinementFromState spec_methods
       (example_state\<lparr>facetsRefinements := [(js ''color'', js ''blue'')]\<rparr>) facet_color_red
     = Inr (example_state\<lparr>facetsRefinements := [(js ''color'', js ''blue'')]\<rparr>)"
proof -
  have h: "type facet_color_red \<in> set handledTypes"
    by (simp add: facet_color_red_def handledTypes_def)
  have once: "clearRefinementFromState spec_methods example_state facet_color_red
     = Inr (example_state\<lparr>facetsRefinements := [(js ''color'', js ''blue'')]\<rparr>)"
    by (simp add: clearRefinementFromState_def spec_methods_def spec_removeFacetRefinement_def
        facet_color_red_def example_state_def js_def)
  from clearRefinementFromState_idempotent [OF h, of example_state] once h
  show ?thesis by simp
qed

text \<open>
  Claim C9. On the raw refinements the comparator gives the same answers with the tail the
  code builds, duplicates included, as with the tail of first occurrences, and so
  \<open>getFilteredRefinements\<close> returns the same list as its variant that sorts with the
  deduplicated tail.
\<close>

theorem tail_duplicates_harmless:
  "(\<forall>a \<in> set (g res st). \<forall>b \<in> set (g res st).
      compareRefinements attrs (otherAttributeNames attrs (g res st)) a b
        = compareRefinements attrs (spec_otherNames attrs (g res st)) a b) \<and>
   getFilteredRefinements g res st attrs flag = spec_getFilteredRefinements g res st attrs flag"
proof -
  have "array_sort (compareRefinements attrs (otherAttributeNames attrs (g res st))) (g res st)
        = array_sort (compareRefinements attrs (spec_otherNames attrs (g res st))) (g res st)"
    by (rule array_sort_cong) (rule compareRefinements_tails)
  then have "getFilteredRefinements g res st attrs flag
             = spec_getFilteredRefinements g res st attrs flag"
    by (simp add: getFilteredRefinements_def spec_getFilteredRefinements_def Let_def)
  then show ?thesis
    using compareRefinements_tails by blast
qed

theorem tail_duplicates_harmless_witness:
  "otherAttributeNames [] example_refinements = [js ''color'', js ''color'', js ''_tags''] \<and>
   spec_otherNames [] example_refinements = [js ''color'', js ''_tags''] \<and>
   compareRefinements [] [js ''color'', js ''color'', js ''_tags''] tag_sale facet_color_red
     = compareRefinements [] [js ''color'', js ''_tags''] tag_sale facet_color_red \<and>
   getFilteredRefinements (\<lambda>results state. example_refinements) () () [] False
     = spec_getFilteredRefinements (\<lambda>results state. example_refinements) () () [] False"
proof -
  let ?g = "\<lambda>(results::unit) (state::unit). example_refinements"
  have tails: "otherAttributeNames [] example_refinements
                 = [js ''color'', js ''color'', js ''_tags'']"
    "spec_otherNames [] example_refinements = [js ''color'', js ''_tags'']"
    by (simp_all add: otherAttributeNames_def spec_otherNames_def truthy_def strict_equals_def
        example_refinements_def facet_color_red_def facet_color_blue_def tag_sale_def js_def)
  have mem: "tag_sale \<in> set example_refinements" "facet_color_red \<in> set example_refinements"
    by (simp_all add: example_refinements_def)
  note t = tail_duplicates_harmless
    [where g = ?g and res = "()" and st = "()" and attrs = "[]" and flag = False]
  from t mem
  have "compareRefinements [] (otherAttributeNames [] example_refinements) tag_sale facet_color_red
        = compareRefinements [] (spec_otherNames [] example_refinements) tag_sale facet_color_red"
    by blast
  moreover from t
  have "getFilteredRefinements ?g () () [] False = spec_getFilteredRefinements ?g () () [] False"
    by (rule conjunct2)
  ultimately show ?thesis
    using tails by (simp only: simp_thms)
qed

text \<open>
  Claim C10. When the operator property is present and its value is not a string, the
  label is the bare name and the record comes out as it would with the property
  missing (the property itself apart). A label that differs from the name is only
  written for an operator that is a string.
\<close>

theorem computeLabel_non_string_operator:
  "(operator r = Some v \<and> typeof v \<noteq> js ''string'' \<longrightarrow>
      computedLabel (computeLabel r) = Some (name r) \<and>
      computeLabel r = (computeLabel (r\<lparr>operator := None\<rparr>))\<lparr>operator := Some v\<rparr>) \<and>
   (computedLabel (computeLabel r) \<noteq> Some (name r) \<longrightarrow>
      (\<exists>s. operator r = Some (JStr s)))"
proof -
  have a: "spec_label (name r) (operator r) = name r" if "\<not> (\<exists>s. operator r = Some (JStr s))"
    using that by (auto simp: spec_label_def split: option.splits jsval.splits)
  show ?thesis
    using a by (auto simp: computeLabel_eq typeof_string_iff spec_label_def)
qed

theorem computeLabel_non_string_operator_witness:
  "typeof (JNum 5) \<noteq> js ''string'' \<and>
   computedLabel (computeLabel (facet_color_red\<lparr>operator := Some (JNum 5)\<rparr>)) = Some (js ''red'') \<and>
   computeLabel (facet_color_red\<lparr>operator := Some (JNum 5)\<rparr>)
     = (computeLabel facet_color_red)\<lparr>operator := Some (JNum 5)\<rparr> \<and>
   computedLabel (computeLabel (numeric_price (js ''='') (js ''3'') 3)) \<noteq> Some (js ''3'') \<and>
   (\<exists>s. operator (numeric_price (js ''='') (js ''3'') 3) = Some (JStr s))"
proof -
  let ?r = "facet_color_red\<lparr>operator := Some (JNum 5)\<rparr>"
  let ?p = "numeric_price (js ''='') (js ''3'') 3"
  have a: "typeof (JNum 5) \<noteq> js ''string''" by simp
  have hyp: "operator ?r = Some (JNum 5) \<and> typeof (JNum 5) \<noteq> js ''string''" by simp
  have nm: "name ?r = js ''red''" "name ?p = js ''3''"
    by (simp_all add: facet_color_red_def numeric_price_def)
  have undo: "?r\<lparr>operator := None\<rparr> = facet_color_red"
    by (simp add: facet_color_red_def)
  have b: "computedLabel (computeLabel ?p) \<noteq> Some (name ?p)"
    by (simp add: computeLabel_eq spec_label_def numeric_price_def js_def)
  from computeLabel_non_string_operator [where r = ?r and v = "JNum 5", THEN conjunct1, THEN mp, OF hyp]
  have c: "computedLabel (computeLabel ?r) = Some (name ?r)"
    and d: "computeLabel ?r = (computeLabel (?r\<lparr>operator := None\<rparr>))\<lparr>operator := Some (JNum 5)\<rparr>"
    by (rule conjunct1, rule conjunct2)
  from computeLabel_non_string_operator [where r = ?p, THEN conjunct2, THEN mp, OF b]
  have e: "\<exists>s. operator ?p = Some (JStr s)" .
  from a c d b e show ?thesis
    by (simp only: nm undo simp_thms)
qed

end
